theory Spec2Isabelle
  imports Complex_Main "HOL-Library.Word" "HOL-Library.Multiset"
begin

section \<open>The framebuffer visualizer: data model\<close>

text \<open>
  The development embeds \<^verbatim>\<open>melvin_visualizer_fb.py\<close>. The float fields of the scene
  are modelled as \<^typ>\<open>real\<close> numbers (no rounding); the arithmetic of the renderer, whose
  results go through \<^verbatim>\<open>int()\<close>, is modelled on float values that can overflow to an
  infinity. The inputs at which a property is shown to fail are small dyadic or integral
  values, on which the float operations involved are exact. Python's unbounded integers
  are \<^typ>\<open>int\<close>. Exceptions are values of \<open>py_error\<close>.
\<close>

datatype py_error =
    ValueError | OSError | ZeroDivisionError | OverflowError | AttributeError | TypeError
  | StructError

text \<open>
  A decoded JSON value, as \<^verbatim>\<open>json.loads\<close> returns it. An object is an association
  list; \<^verbatim>\<open>event.get(key, default)\<close> is \<open>py_get\<close>, which raises
  \<^verbatim>\<open>AttributeError\<close> on a value that is not a \<^verbatim>\<open>dict\<close> (only \<^verbatim>\<open>dict\<close> has
  \<^verbatim>\<open>get\<close>).
\<close>

datatype json =
    JNull | JBool bool | JInt int | JFloat real | JStr string
  | JArr "json list" | JObj "(string \<times> json) list"

fun py_get :: "json \<Rightarrow> string \<Rightarrow> json \<Rightarrow> py_error + json" where
  "py_get (JObj kvs) key dflt = Inr (case map_of kvs key of Some v \<Rightarrow> v | None \<Rightarrow> dflt)"
| "py_get _ key dflt = Inl AttributeError"

text \<open>\<^verbatim>\<open>FramebufferInfo\<close>; the four values come from unsigned 32-bit words.\<close>

record FramebufferInfo =
  width :: nat
  height :: nat
  bpp :: nat
  line_length :: nat

text \<open>\<^verbatim>\<open>LogEntry\<close>. The dataclass does not check its field types: the fields hold
  whatever the event carried.\<close>

record LogEntry =
  timestamp :: json
  context_id :: json
  event_type :: json
  message :: json

text \<open>
  \<^verbatim>\<open>GraphNode\<close>. The fields \<^verbatim>\<open>id\<close>, \<^verbatim>\<open>x\<close>, \<^verbatim>\<open>y\<close>, \<^verbatim>\<open>z\<close> carry the
  prefix \<open>node_\<close>; the other fields keep their names.
\<close>

record GraphNode =
  node_id :: int
  node_x :: real
  node_y :: real
  node_z :: real
  activation :: real
  brightness :: real
  pulse_timer :: real

text \<open>\<^verbatim>\<open>SystemMetrics\<close> and its default instance \<^verbatim>\<open>SystemMetrics()\<close>.\<close>

record SystemMetrics =
  cpu_usage :: json
  gpu_usage :: json
  ram_usage :: json
  tick_rate :: json
  active_nodes :: json
  total_edges :: json
  mean_error :: json
  status :: json

definition SystemMetrics_default :: SystemMetrics where
  "SystemMetrics_default =
     \<lparr>cpu_usage = JFloat 0, gpu_usage = JFloat 0, ram_usage = JFloat 0, tick_rate = JFloat 0,
      active_nodes = JInt 0, total_edges = JInt 0, mean_error = JFloat 0,
      status = JStr ''IDLE''\<rparr>"

text \<open>
  The state of a \<^verbatim>\<open>MelvinVisualizerFB\<close> object without its display: the bounded deque
  \<^verbatim>\<open>entries\<close> (oldest first), the dictionary \<^verbatim>\<open>nodes\<close> in insertion order (an
  association list; \<^verbatim>\<open>values()\<close> is the list of its second components), the metrics
  snapshot, the content of the event queue (oldest first) and the camera angle.
\<close>

record scene =
  entries :: "LogEntry list"
  nodes :: "(int \<times> GraphNode) list"
  metrics :: SystemMetrics
  event_queue :: "json list"
  camera_theta :: real

definition nodes_values :: "scene \<Rightarrow> GraphNode list" where
  "nodes_values s = map snd (nodes s)"


text \<open>\<^verbatim>\<open>_init_nodes\<close>: fifty nodes on the unit sphere, keys \<open>0\<close> to \<open>49\<close>.\<close>

definition init_node :: "nat \<Rightarrow> GraphNode" where
  "init_node i =
     (let num_nodes = (50::real);
          theta = (real i / num_nodes) * 2 * pi;
          phi = arccos (2 * (real i / num_nodes) - 1);
          r = 1
      in \<lparr>node_id = int i,
          node_x = r * sin phi * cos theta,
          node_y = r * sin phi * sin theta,
          node_z = r * cos phi,
          activation = 0, brightness = 0, pulse_timer = 0\<rparr>)"

definition init_nodes :: "(int \<times> GraphNode) list" where
  "init_nodes = map (\<lambda>i. (int i, init_node i)) [0..<50]"

definition init_scene :: scene where
  "init_scene = \<lparr>entries = [], nodes = init_nodes, metrics = SystemMetrics_default,
                  event_queue = [], camera_theta = 0\<rparr>"

section \<open>Draining the event queue\<close>

text \<open>\<^verbatim>\<open>deque(maxlen=500).append\<close>: a full deque drops its oldest element.\<close>

definition deque_append :: "nat \<Rightarrow> 'a list \<Rightarrow> 'a \<Rightarrow> 'a list" where
  "deque_append maxlen xs x = (if length xs < maxlen then xs @ [x] else tl xs @ [x])"

text \<open>
  \<^verbatim>\<open>node_id in self.nodes\<close> for a decoded value. A number is found under the integer
  it equals (\<^verbatim>\<open>True == 1\<close>, \<^verbatim>\<open>3.0 == 3\<close>); a string and \<^verbatim>\<open>None\<close> equal no key;
  a list or a dict is unhashable.
\<close>

fun as_key :: "json \<Rightarrow> py_error + int option" where
  "as_key (JInt i) = Inr (Some i)"
| "as_key (JBool b) = Inr (Some (if b then 1 else 0))"
| "as_key (JFloat r) = Inr (if r = of_int \<lfloor>r\<rfloor> then Some \<lfloor>r\<rfloor> else None)"
| "as_key (JStr s) = Inr None"
| "as_key JNull = Inr None"
| "as_key (JArr xs) = Inl TypeError"
| "as_key (JObj kvs) = Inl TypeError"

text \<open>The number a decoded value is in \<^verbatim>\<open>node.activation > 0.8\<close>; the comparison raises
  \<^verbatim>\<open>TypeError\<close> on a value that is not a number.\<close>

fun as_number :: "json \<Rightarrow> py_error + real" where
  "as_number (JInt i) = Inr (of_int i)"
| "as_number (JBool b) = Inr (if b then 1 else 0)"
| "as_number (JFloat r) = Inr r"
| "as_number _ = Inl TypeError"

definition set_node :: "(int \<times> GraphNode) list \<Rightarrow> int \<Rightarrow> GraphNode \<Rightarrow> (int \<times> GraphNode) list" where
  "set_node ns k node = map (\<lambda>(k', n). if k' = k then (k', node) else (k', n)) ns"

definition log_types :: "json list" where
  "log_types = [JStr ''thought'', JStr ''perception'', JStr ''learning'', JStr ''context'']"

text \<open>
  The body of the loop of \<^verbatim>\<open>process_events\<close> for one event taken from the queue; \<open>now\<close>
  is the value of \<^verbatim>\<open>time.time()\<close>. A node whose new activation is not a number stops the
  program at the comparison (the exception leaves \<^verbatim>\<open>process_events\<close> and \<^verbatim>\<open>run\<close>), so
  the model returns the error there and no state.
\<close>

definition process_event :: "real \<Rightarrow> scene \<Rightarrow> json \<Rightarrow> py_error + scene" where
  "process_event now s event =
     (case py_get event ''type'' (JStr '''') of
        Inl e \<Rightarrow> Inl e
      | Inr etype \<Rightarrow>
          if etype \<in> set log_types then
            (case (py_get event ''timestamp'' (JFloat now), py_get event ''context'' (JStr ''main''),
                   py_get event ''text'' (JStr '''')) of
               (Inr ts, Inr ctx, Inr txt) \<Rightarrow>
                 Inr (s\<lparr>entries := deque_append 500 (entries s)
                          \<lparr>timestamp = ts, context_id = ctx, event_type = etype, message = txt\<rparr>\<rparr>)
             | _ \<Rightarrow> Inl AttributeError)
          else if etype = JStr ''graph_update'' then
            (case py_get event ''node_id'' (JInt 0) of
               Inl e \<Rightarrow> Inl e
             | Inr nid \<Rightarrow>
                 (case as_key nid of
                    Inl e \<Rightarrow> Inl e
                  | Inr None \<Rightarrow> Inr s
                  | Inr (Some k) \<Rightarrow>
                      (case map_of (nodes s) k of
                         None \<Rightarrow> Inr s
                       | Some node \<Rightarrow>
                           (case py_get event ''activation'' (JFloat 0) of
                              Inl e \<Rightarrow> Inl e
                            | Inr a \<Rightarrow>
                                (case as_number a of
                                   Inl e \<Rightarrow> Inl e
                                 | Inr act \<Rightarrow>
                                     (let node1 = node\<lparr>activation := act\<rparr>;
                                          node2 = (if activation node1 > 0.8
                                                   then node1\<lparr>pulse_timer := 0.2\<rparr> else node1)
                                      in Inr (s\<lparr>nodes := set_node (nodes s) k node2\<rparr>)))))))
          else if etype = JStr ''metric'' then
            (case (py_get event ''cpu'' (JInt 0), py_get event ''tick_rate'' (JInt 0),
                   py_get event ''active_nodes'' (JInt 0), py_get event ''total_edges'' (JInt 0),
                   py_get event ''mean_error'' (JInt 0), py_get event ''status'' (JStr ''IDLE'')) of
               (Inr cpu, Inr tr, Inr an, Inr te, Inr me, Inr st) \<Rightarrow>
                 Inr (s\<lparr>metrics := SystemMetrics_default
                          \<lparr>cpu_usage := cpu, tick_rate := tr, active_nodes := an,
                           total_edges := te, mean_error := me, status := st\<rparr>\<rparr>)
             | _ \<Rightarrow> Inl AttributeError)
          else Inr s)"

text \<open>\<^verbatim>\<open>process_events\<close>: the events of the queue, oldest first, until it is empty.\<close>

fun drain :: "real \<Rightarrow> scene \<Rightarrow> json list \<Rightarrow> py_error + scene" where
  "drain now s [] = Inr s"
| "drain now s (event # rest) =
     (case process_event now s event of Inl e \<Rightarrow> Inl e | Inr s' \<Rightarrow> drain now s' rest)"

definition process_events :: "real \<Rightarrow> scene \<Rightarrow> py_error + scene" where
  "process_events now s = drain now (s\<lparr>event_queue := []\<rparr>) (event_queue s)"

section \<open>The per-tick update\<close>




section \<open>Float values that can overflow\<close>

text \<open>
  The renderer converts floats to integers with \<^verbatim>\<open>int()\<close>, which raises on an infinity
  or a NaN, so its arithmetic is modelled on float values that can overflow: a finite
  value, one of the two infinities, or NaN. A result beyond the largest finite double
  becomes an infinity; rounding, underflow and the sign of zero are not modelled.
  Python's float \<^verbatim>\<open>+\<close>, \<^verbatim>\<open>-\<close> and \<^verbatim>\<open>*\<close> never raise; \<^verbatim>\<open>/\<close> raises
  \<^verbatim>\<open>ZeroDivisionError\<close> on a zero divisor.
\<close>

datatype pyfloat = Fin real | PInf | NInf | NaN

definition float_max :: real where
  "float_max = 2 ^ 1024 - 2 ^ 971"

definition fl :: "real \<Rightarrow> pyfloat" where
  "fl r = (if r > float_max then PInf else if r < - float_max then NInf else Fin r)"

fun fneg :: "pyfloat \<Rightarrow> pyfloat" where
  "fneg (Fin a) = Fin (- a)"
| "fneg PInf = NInf"
| "fneg NInf = PInf"
| "fneg NaN = NaN"

fun fadd :: "pyfloat \<Rightarrow> pyfloat \<Rightarrow> pyfloat" where
  "fadd (Fin a) (Fin b) = fl (a + b)"
| "fadd NaN _ = NaN"
| "fadd _ NaN = NaN"
| "fadd PInf NInf = NaN"
| "fadd NInf PInf = NaN"
| "fadd PInf _ = PInf"
| "fadd _ PInf = PInf"
| "fadd NInf _ = NInf"
| "fadd _ NInf = NInf"

definition fsub :: "pyfloat \<Rightarrow> pyfloat \<Rightarrow> pyfloat" where
  "fsub a b = fadd a (fneg b)"

text \<open>The infinity with the sign of \<open>a\<close>, NaN for \<open>a = 0\<close> (an infinity times zero).\<close>

definition inf_times :: "real \<Rightarrow> pyfloat" where
  "inf_times a = (if a = 0 then NaN else if a > 0 then PInf else NInf)"

fun fmul :: "pyfloat \<Rightarrow> pyfloat \<Rightarrow> pyfloat" where
  "fmul (Fin a) (Fin b) = fl (a * b)"
| "fmul NaN _ = NaN"
| "fmul _ NaN = NaN"
| "fmul (Fin a) PInf = inf_times a"
| "fmul (Fin a) NInf = inf_times (- a)"
| "fmul PInf (Fin b) = inf_times b"
| "fmul NInf (Fin b) = inf_times (- b)"
| "fmul PInf PInf = PInf"
| "fmul PInf NInf = NInf"
| "fmul NInf PInf = NInf"
| "fmul NInf NInf = PInf"

text \<open>The quotient by a divisor that is not zero.\<close>

fun fquot :: "pyfloat \<Rightarrow> pyfloat \<Rightarrow> pyfloat" where
  "fquot (Fin a) (Fin b) = fl (a / b)"
| "fquot NaN _ = NaN"
| "fquot _ NaN = NaN"
| "fquot (Fin a) _ = Fin 0"
| "fquot PInf (Fin b) = (if b > 0 then PInf else NInf)"
| "fquot NInf (Fin b) = (if b > 0 then NInf else PInf)"
| "fquot _ _ = NaN"

definition fdiv :: "pyfloat \<Rightarrow> pyfloat \<Rightarrow> py_error + pyfloat" where
  "fdiv a b = (if b = Fin 0 then Inl ZeroDivisionError else Inr (fquot a b))"

text \<open>\<^verbatim>\<open>a < 0\<close> on a float: false on NaN.\<close>

fun fneg0 :: "pyfloat \<Rightarrow> bool" where
  "fneg0 (Fin a) = (a < 0)"
| "fneg0 NInf = True"
| "fneg0 _ = False"

text \<open>
  Python's \<^verbatim>\<open>int(x)\<close> on a float: truncation towards zero, \<^verbatim>\<open>OverflowError\<close> on an
  infinity, \<^verbatim>\<open>ValueError\<close> on NaN.
\<close>

fun py_int :: "pyfloat \<Rightarrow> py_error + int" where
  "py_int (Fin r) = Inr (if 0 \<le> r then \<lfloor>r\<rfloor> else \<lceil>r\<rceil>)"
| "py_int PInf = Inl OverflowError"
| "py_int NInf = Inl OverflowError"
| "py_int NaN = Inl ValueError"

text \<open>
  An integer operand of a float operation is converted to a float, and \<^verbatim>\<open>k / d\<close> on two
  integers is a float division; both raise \<^verbatim>\<open>OverflowError\<close> when the result is too
  large for a float. The divisor \<open>d\<close> is a literal that is not zero.
\<close>

definition int_to_float :: "int \<Rightarrow> py_error + pyfloat" where
  "int_to_float k =
     (if \<bar>of_int k\<bar> > float_max then Inl OverflowError else Inr (Fin (of_int k)))"

definition int_truediv :: "int \<Rightarrow> int \<Rightarrow> py_error + pyfloat" where
  "int_truediv k d =
     (if \<bar>of_int k / of_int d\<bar> > float_max then Inl OverflowError
      else Inr (Fin (of_int k / of_int d)))"

section \<open>Projection and the node loop of the renderer\<close>

text \<open>
  The exact values of the two rotated coordinates that \<^verbatim>\<open>project_node\<close> computes, and of
  the divisor of its perspective scale, \<^verbatim>\<open>distance + z_rot\<close>: the depth of the node in
  view space.
\<close>

definition x_rot :: "scene \<Rightarrow> GraphNode \<Rightarrow> real" where
  "x_rot s node = node_x node * cos (camera_theta s) - node_z node * sin (camera_theta s)"

definition z_rot :: "scene \<Rightarrow> GraphNode \<Rightarrow> real" where
  "z_rot s node = node_x node * sin (camera_theta s) + node_z node * cos (camera_theta s)"

definition distance :: real where
  "distance = 3"

definition view_depth :: "scene \<Rightarrow> GraphNode \<Rightarrow> real" where
  "view_depth s node = distance + z_rot s node"

text \<open>
  \<^verbatim>\<open>screen_x = int(width / 2 + x_rot * scale * width / 4)\<close> and
  \<^verbatim>\<open>screen_y = int(height / 2 - node.y * scale * height / 3)\<close>, in the order in which
  Python evaluates them: \<open>is_diff\<close> tells the difference from the sum, \<open>c\<close> is the
  coordinate, \<open>k\<close> the panel size and \<open>d\<close> the literal divisor.
\<close>

definition screen_coord :: "int \<Rightarrow> bool \<Rightarrow> pyfloat \<Rightarrow> pyfloat \<Rightarrow> int \<Rightarrow> py_error + int" where
  "screen_coord k is_diff c scale d =
     (case int_truediv k 2 of
        Inl e \<Rightarrow> Inl e
      | Inr half \<Rightarrow>
          (case int_to_float k of
             Inl e \<Rightarrow> Inl e
           | Inr kf \<Rightarrow>
               (let t = fquot (fmul (fmul c scale) kf) (Fin (of_int d))
                in py_int (if is_diff then fsub half t else fadd half t))))"

text \<open>
  \<^verbatim>\<open>project_node(node, width, height)\<close>. The panel size is written \<open>w\<close>, \<open>h\<close>.
\<close>

definition project_node :: "scene \<Rightarrow> GraphNode \<Rightarrow> int \<Rightarrow> int \<Rightarrow> py_error + (int \<times> int \<times> pyfloat)" where
  "project_node s node w h =
     (let cos_t = Fin (cos (camera_theta s));
          sin_t = Fin (sin (camera_theta s));
          xr = fsub (fmul (Fin (node_x node)) cos_t) (fmul (Fin (node_z node)) sin_t);
          zr = fadd (fmul (Fin (node_x node)) sin_t) (fmul (Fin (node_z node)) cos_t)
      in case fdiv (Fin distance) (fadd (Fin distance) zr) of
           Inl e \<Rightarrow> Inl e
         | Inr scale \<Rightarrow>
             (case screen_coord w False xr scale 4 of
                Inl e \<Rightarrow> Inl e
              | Inr screen_x \<Rightarrow>
                  (case screen_coord h True (Fin (node_y node)) scale 3 of
                     Inl e \<Rightarrow> Inl e
                   | Inr screen_y \<Rightarrow> Inr (screen_x, screen_y, scale))))"

text \<open>One call \<^verbatim>\<open>draw_circle(nx, ny, radius, color, fill=True)\<close>, with the id of the node
  it is drawn for.\<close>

record circle_call =
  for_node :: int
  cx :: int
  cy :: int
  radius :: int
  color :: "int \<times> int \<times> int"

text \<open>The order in which \<^verbatim>\<open>render_graph\<close> visits the nodes:
  \<^verbatim>\<open>sorted(self.nodes.values(), key=lambda n: n.z)\<close>, a stable sort.\<close>

definition draw_order :: "scene \<Rightarrow> GraphNode list" where
  "draw_order s = sort_key node_z (nodes_values s)"

text \<open>
  The radius and the colour of the circle of a node that is drawn:
  \<^verbatim>\<open>
  radius = max(2, int(3 * scale * (0.5 + node.brightness * 0.5)))
  brightness = int(node.brightness * 255)
  color = (0, brightness, int(brightness * 0.5))
  \<close>
\<close>

definition circle_of :: "GraphNode \<Rightarrow> int \<Rightarrow> int \<Rightarrow> pyfloat \<Rightarrow> py_error + circle_call" where
  "circle_of node nx ny scale =
     (case py_int (fmul (fmul (Fin 3) scale)
                        (fadd (Fin 0.5) (fmul (Fin (brightness node)) (Fin 0.5)))) of
        Inl e \<Rightarrow> Inl e
      | Inr r \<Rightarrow>
          (case py_int (fmul (Fin (brightness node)) (Fin 255)) of
             Inl e \<Rightarrow> Inl e
           | Inr b \<Rightarrow>
               (case int_to_float b of
                  Inl e \<Rightarrow> Inl e
                | Inr bf \<Rightarrow>
                    (case py_int (fmul bf (Fin 0.5)) of
                       Inl e \<Rightarrow> Inl e
                     | Inr b2 \<Rightarrow>
                         Inr \<lparr>for_node = node_id node, cx = nx, cy = ny,
                              radius = max 2 r, color = (0, b, b2)\<rparr>))))"

text \<open>
  The loop of \<^verbatim>\<open>render_graph(x, y, w, h)\<close> over the nodes in that order: the calls of
  \<^verbatim>\<open>draw_circle\<close> it makes, first call first, or the exception that leaves the loop. The
  pixels that \<^verbatim>\<open>draw_circle\<close> writes are not part of the model.
\<close>

fun draw_nodes :: "scene \<Rightarrow> int \<Rightarrow> int \<Rightarrow> int \<Rightarrow> int \<Rightarrow> GraphNode list \<Rightarrow> py_error + circle_call list" where
  "draw_nodes s x y w h [] = Inr []"
| "draw_nodes s x y w h (node # rest) =
     (case project_node s node w h of
        Inl e \<Rightarrow> Inl e
      | Inr (nx0, ny0, scale) \<Rightarrow>
          (let nx = nx0 + x; ny = ny0 + y in
           if fneg0 scale \<or> nx < x \<or> ny < y \<or> nx \<ge> x + w \<or> ny \<ge> y + h
           then draw_nodes s x y w h rest
           else
             (case circle_of node nx ny scale of
                Inl e \<Rightarrow> Inl e
              | Inr c \<Rightarrow>
                  (case draw_nodes s x y w h rest of
                     Inl e \<Rightarrow> Inl e
                   | Inr cs \<Rightarrow> Inr (c # cs)))))"

definition render_graph_nodes :: "scene \<Rightarrow> int \<Rightarrow> int \<Rightarrow> int \<Rightarrow> int \<Rightarrow> py_error + circle_call list" where
  "render_graph_nodes s x y w h = draw_nodes s x y w h (draw_order s)"

section \<open>The framebuffer display\<close>

text \<open>
  An \<^verbatim>\<open>mmap\<close> object: whether it has been closed, the mapped bytes, the file position.
  Testing the truth of the object takes its length, which raises \<^verbatim>\<open>ValueError\<close> once
  the object is closed; \<^verbatim>\<open>close\<close> of a closed object does nothing; \<^verbatim>\<open>seek\<close> and
  \<^verbatim>\<open>write\<close> raise \<^verbatim>\<open>ValueError\<close> on a closed object and out of range.
\<close>

record mmap_obj =
  mm_closed :: bool
  mm_data :: "8 word list"
  mm_pos :: nat

definition mmap_truth :: "mmap_obj \<Rightarrow> py_error + bool" where
  "mmap_truth m = (if mm_closed m then Inl ValueError else Inr (length (mm_data m) \<noteq> 0))"

definition mmap_close :: "mmap_obj \<Rightarrow> mmap_obj" where
  "mmap_close m = m\<lparr>mm_closed := True\<rparr>"

definition mmap_seek :: "mmap_obj \<Rightarrow> nat \<Rightarrow> py_error option \<times> mmap_obj" where
  "mmap_seek m pos =
     (if mm_closed m \<or> pos > length (mm_data m) then (Some ValueError, m)
      else (None, m\<lparr>mm_pos := pos\<rparr>))"

definition mmap_write :: "mmap_obj \<Rightarrow> 8 word list \<Rightarrow> py_error option \<times> mmap_obj" where
  "mmap_write m bs =
     (if mm_closed m \<or> mm_pos m > length (mm_data m)
         \<or> length (mm_data m) - mm_pos m < length bs
      then (Some ValueError, m)
      else (None, m\<lparr>mm_data := take (mm_pos m) (mm_data m) @ bs
                                   @ drop (mm_pos m + length bs) (mm_data m),
                      mm_pos := mm_pos m + length bs\<rparr>))"

text \<open>\<^verbatim>\<open>struct.pack('BBBB', b, g, r, 255)\<close> for a colour \<^verbatim>\<open>(r, g, b)\<close>: four bytes, or
  \<^verbatim>\<open>struct.error\<close> when a component is not in \<open>0..255\<close>.\<close>

definition pack_pixel :: "int \<times> int \<times> int \<Rightarrow> py_error + 8 word list" where
  "pack_pixel c =
     (case c of (r, g, b) \<Rightarrow>
        if 0 \<le> r \<and> r \<le> 255 \<and> 0 \<le> g \<and> g \<le> 255 \<and> 0 \<le> b \<and> b \<le> 255
        then Inr [word_of_int b, word_of_int g, word_of_int r, 255]
        else Inl StructError)"

text \<open>The fields of a \<^verbatim>\<open>FramebufferDisplay\<close> object; \<^verbatim>\<open>None\<close> is \<open>None\<close>.\<close>

record FramebufferDisplay =
  fb_fd :: "int option"
  fb_mem :: "mmap_obj option"
  info :: "FramebufferInfo option"

definition new_display :: FramebufferDisplay where
  "new_display = \<lparr>fb_fd = None, fb_mem = None, info = None\<rparr>"

text \<open>
  What the device answers to \<^verbatim>\<open>open\<close>: the descriptor \<^verbatim>\<open>os.open\<close> returns, the
  control blocks the two \<^verbatim>\<open>ioctl\<close> calls fill in (word index to value), the device
  memory \<^verbatim>\<open>mmap.mmap\<close> maps; \<open>None\<close> where the call raises.
\<close>

record fb_device =
  dev_fd :: "int option"
  dev_vinfo :: "(nat \<Rightarrow> nat) option"
  dev_finfo :: "(nat \<Rightarrow> nat) option"
  dev_mem :: "8 word list option"

text \<open>The lines the program prints.\<close>

datatype out_line =
    Banner | FbOpened nat nat nat | FbOpenFailed | RunOpenFailed
  | Starting | Resolution nat nat | PressCtrlC | FpsReport | ShuttingDown

text \<open>
  \<^verbatim>\<open>FramebufferDisplay.open\<close>, on a display object and the set of descriptors the
  process has open: the returned flag, the lines printed, the object and the descriptors
  afterwards. An exception in any step is caught, reported and answered with \<^verbatim>\<open>False\<close>;
  the fields assigned before it stay assigned.
\<close>

definition open_fb ::
  "fb_device \<Rightarrow> FramebufferDisplay \<times> int set \<Rightarrow> bool \<times> out_line list \<times> FramebufferDisplay \<times> int set" where
  "open_fb dev st =
     (case st of (fb, fds) \<Rightarrow>
      (case dev_fd dev of
         None \<Rightarrow> (False, [FbOpenFailed], fb, fds)
       | Some fd \<Rightarrow>
          (let fb1 = fb\<lparr>fb_fd := Some fd\<rparr>; fds1 = insert fd fds in
           case dev_vinfo dev of
             None \<Rightarrow> (False, [FbOpenFailed], fb1, fds1)
           | Some vinfo \<Rightarrow>
              (case dev_finfo dev of
                 None \<Rightarrow> (False, [FbOpenFailed], fb1, fds1)
               | Some finfo \<Rightarrow>
                  (let i = \<lparr>width = vinfo 0, height = vinfo 1, bpp = vinfo 6,
                            line_length = finfo 7\<rparr>;
                       fb2 = fb1\<lparr>info := Some i\<rparr>;
                       fb_size = line_length i * height i
                   in case dev_mem dev of
                        None \<Rightarrow> (False, [FbOpenFailed], fb2, fds1)
                      | Some mem \<Rightarrow>
                          if fb_size = 0 \<or> length mem < fb_size
                          then (False, [FbOpenFailed], fb2, fds1)
                          else (True, [FbOpened (width i) (height i) (bpp i)],
                                fb2\<lparr>fb_mem := Some \<lparr>mm_closed = False,
                                                     mm_data = take fb_size mem, mm_pos = 0\<rparr>\<rparr>,
                                fds1))))))"

text \<open>
  \<^verbatim>\<open>FramebufferDisplay.close\<close>: the exception raised, if any, and the object and the
  descriptors afterwards. \<^verbatim>\<open>if self.fb_mem:\<close> tests the truth of the mapping,
  \<^verbatim>\<open>if self.fb_fd:\<close> that of the descriptor (\<^verbatim>\<open>None\<close> and \<open>0\<close> are false);
  \<^verbatim>\<open>os.close\<close> raises \<^verbatim>\<open>OSError\<close> on a descriptor that is not open. No field is
  assigned.
\<close>

definition close :: "FramebufferDisplay \<times> int set \<Rightarrow> py_error option \<times> FramebufferDisplay \<times> int set" where
  "close st =
     (case st of (fb, fds) \<Rightarrow>
      (case (case fb_mem fb of
               None \<Rightarrow> Inr fb
             | Some m \<Rightarrow>
                 (case mmap_truth m of
                    Inl e \<Rightarrow> Inl e
                  | Inr t \<Rightarrow> Inr (if t then fb\<lparr>fb_mem := Some (mmap_close m)\<rparr> else fb))) of
         Inl e \<Rightarrow> (Some e, fb, fds)
       | Inr fb1 \<Rightarrow>
           (case fb_fd fb1 of
              None \<Rightarrow> (None, fb1, fds)
            | Some fd \<Rightarrow>
                if fd = 0 then (None, fb1, fds)
                else if fd \<in> fds then (None, fb1, fds - {fd})
                else (Some OSError, fb1, fds))))"

text \<open>The loop of \<^verbatim>\<open>clear\<close>: \<open>n\<close> times \<^verbatim>\<open>self.fb_mem.write(pixel)\<close>.\<close>

fun write_pixels :: "nat \<Rightarrow> 8 word list \<Rightarrow> mmap_obj \<Rightarrow> py_error option \<times> mmap_obj" where
  "write_pixels 0 pixel m = (None, m)"
| "write_pixels (Suc n) pixel m =
     (case mmap_write m pixel of
        (Some e, m') \<Rightarrow> (Some e, m')
      | (None, m') \<Rightarrow> write_pixels n pixel m')"

text \<open>\<^verbatim>\<open>FramebufferDisplay.clear(color)\<close>: the exception raised, if any, and the object
  afterwards.\<close>

definition clear :: "FramebufferDisplay \<Rightarrow> int \<times> int \<times> int \<Rightarrow> py_error option \<times> FramebufferDisplay" where
  "clear fb c =
     (case fb_mem fb of
        None \<Rightarrow> (None, fb)
      | Some m \<Rightarrow>
         (case mmap_truth m of
            Inl e \<Rightarrow> (Some e, fb)
          | Inr t \<Rightarrow>
             if \<not> t then (None, fb)
             else
              (case pack_pixel c of
                 Inl e \<Rightarrow> (Some e, fb)
               | Inr pixel \<Rightarrow>
                  (case mmap_seek m 0 of
                     (Some e, m1) \<Rightarrow> (Some e, fb\<lparr>fb_mem := Some m1\<rparr>)
                   | (None, m1) \<Rightarrow>
                      (case info fb of
                         None \<Rightarrow> (Some AttributeError, fb\<lparr>fb_mem := Some m1\<rparr>)
                       | Some i \<Rightarrow>
                          (case write_pixels (width i * height i) pixel m1 of
                             (e, m2) \<Rightarrow> (e, fb\<lparr>fb_mem := Some m2\<rparr>)))))))"

text \<open>\<^verbatim>\<open>FramebufferDisplay.draw_pixel(x, y, color)\<close>, which addresses a pixel by the row
  stride: \<^verbatim>\<open>offset = y * self.info.line_length + x * 4\<close>.\<close>

definition draw_pixel :: "FramebufferDisplay \<Rightarrow> int \<Rightarrow> int \<Rightarrow> int \<times> int \<times> int \<Rightarrow> py_error option \<times> FramebufferDisplay" where
  "draw_pixel fb x y c =
     (case fb_mem fb of
        None \<Rightarrow> (None, fb)
      | Some m \<Rightarrow>
         (case mmap_truth m of
            Inl e \<Rightarrow> (Some e, fb)
          | Inr t \<Rightarrow>
             (case info fb of
                None \<Rightarrow> (if \<not> t \<or> x < 0 \<or> y < 0 then (None, fb) else (Some AttributeError, fb))
              | Some i \<Rightarrow>
                 if \<not> t \<or> x < 0 \<or> y < 0 \<or> x \<ge> int (width i) \<or> y \<ge> int (height i)
                 then (None, fb)
                 else
                  (let offset = nat y * line_length i + nat x * 4 in
                   case mmap_seek m offset of
                     (Some e, m1) \<Rightarrow> (Some e, fb\<lparr>fb_mem := Some m1\<rparr>)
                   | (None, m1) \<Rightarrow>
                      (case pack_pixel c of
                         Inl e \<Rightarrow> (Some e, fb\<lparr>fb_mem := Some m1\<rparr>)
                       | Inr pixel \<Rightarrow>
                          (case mmap_write m1 pixel of
                             (e, m2) \<Rightarrow> (e, fb\<lparr>fb_mem := Some m2\<rparr>)))))))"

text \<open>The four bytes of the mapped buffer that the display shows as the pixel \<open>(x, y)\<close>:
  those at offset \<open>y * line_length + x * 4\<close>.\<close>

definition pixel_at :: "FramebufferDisplay \<Rightarrow> nat \<Rightarrow> nat \<Rightarrow> 8 word list" where
  "pixel_at fb x y =
     (case (fb_mem fb, info fb) of
        (Some m, Some i) \<Rightarrow> take 4 (drop (y * line_length i + x * 4) (mm_data m))
      | _ \<Rightarrow> [])"

section \<open>The ingestion worker\<close>

text \<open>
  The worker thread runs \<^verbatim>\<open>connect_to_socket\<close> once. Its model is sequential: what the
  environment answers is given as a script, and the result is the list of the worker's
  actions in order together with a flag that tells whether the worker has returned. A
  script that ends leaves the worker inside its loop (flag \<open>False\<close>).
\<close>

datatype action = Connect | Put json | Sleep real | CloseSocket | EnterDemo

text \<open>One \<^verbatim>\<open>sock.recv(4096).decode('utf-8')\<close>: the decoded text (empty at the end of the
  stream), or an exception of the read or of the decoding.\<close>

datatype recv_result = Recv string | RecvRaises

text \<open>\<^verbatim>\<open>data.strip().split('\n')\<close> on ASCII text.\<close>

definition py_isspace :: "char \<Rightarrow> bool" where
  "py_isspace c = ((of_char c :: nat) \<in> {9, 10, 11, 12, 13, 28, 29, 30, 31, 32})"

definition strip :: "string \<Rightarrow> string" where
  "strip cs = rev (dropWhile py_isspace (rev (dropWhile py_isspace cs)))"

fun split_nl :: "string \<Rightarrow> string list" where
  "split_nl [] = [] # []"
| "split_nl (c # cs) =
     (if c = CHR 0x0A then [] # split_nl cs
      else (case split_nl cs of l # ls \<Rightarrow> (c # l) # ls | [] \<Rightarrow> [c] # []))"

text \<open>
  What \<^verbatim>\<open>json.loads\<close> does on a line: it returns a value, raises \<^verbatim>\<open>JSONDecodeError\<close>, or
  raises another exception (a \<^verbatim>\<open>RecursionError\<close> on deeply nested input). The decoder is
  a parameter of the model.
\<close>

datatype loads_result = Decoded json | JSONDecodeError | LoadsRaises

text \<open>
  The loop over the lines of one read: the events put on the queue, and whether an
  exception other than \<^verbatim>\<open>JSONDecodeError\<close> left the loop (the rest of the lines is then
  dropped). A line that does not decode is skipped.
\<close>

fun put_lines :: "(string \<Rightarrow> loads_result) \<Rightarrow> string list \<Rightarrow> action list \<times> bool" where
  "put_lines loads [] = ([], False)"
| "put_lines loads (line # ls) =
     (if line = [] then put_lines loads ls
      else (case loads line of
              Decoded event \<Rightarrow>
                (case put_lines loads ls of (acts, exc) \<Rightarrow> (Put event # acts, exc))
            | JSONDecodeError \<Rightarrow> put_lines loads ls
            | LoadsRaises \<Rightarrow> ([], True)))"

text \<open>
  The loop \<^verbatim>\<open>while self.running:\<close> of the connected worker, followed by
  \<^verbatim>\<open>sock.close()\<close>. Each element of the script is the value of \<^verbatim>\<open>self.running\<close> read by
  the loop test and the outcome of the read that follows. An exception inside the body
  is answered with \<^verbatim>\<open>time.sleep(1)\<close> and the next round. \<^verbatim>\<open>sock.close()\<close> is taken to
  succeed.
\<close>

fun recv_loop :: "(string \<Rightarrow> loads_result) \<Rightarrow> (bool \<times> recv_result) list \<Rightarrow> action list \<times> bool" where
  "recv_loop loads [] = ([], False)"
| "recv_loop loads ((running, r) # rest) =
     (if \<not> running then ([CloseSocket], True)
      else
        (case r of
           RecvRaises \<Rightarrow>
             (case recv_loop loads rest of (acts, fin) \<Rightarrow> (Sleep 1 # acts, fin))
         | Recv data \<Rightarrow>
             if data = [] then ([CloseSocket], True)
             else
               (case put_lines loads (split_nl (strip data)) of
                  (lacts, exc) \<Rightarrow>
                    (case recv_loop loads rest of
                       (acts, fin) \<Rightarrow>
                         (lacts @ (if exc then [Sleep 1] else []) @ acts, fin)))))"

text \<open>The random draws and the clock reading of one round of \<^verbatim>\<open>_run_demo_mode\<close>, in the
  order of the source.\<close>

record demo_draws =
  d_sleep :: real
  d_type :: nat
  d_msg :: nat
  d_now :: real
  d_node :: int
  d_act :: real
  d_gate :: real
  d_cpu :: real
  d_tick :: real
  d_active :: int
  d_edges :: int
  d_err :: real
  d_status :: nat

definition messages :: "string list" where
  "messages =
     [''Analyzing visual input'', ''Processing sensory data'', ''Updating neural weights'',
      ''Context shift: environment'', ''Motor planning active'', ''Prediction computed'',
      ''Learning adaptation'', ''Attention reoriented'', ''Memory consolidation'',
      ''Pattern recognized'']"

definition types :: "string list" where
  "types = [''thought'', ''perception'', ''learning'', ''context'']"

definition demo_events :: "demo_draws \<Rightarrow> json list" where
  "demo_events d =
     [JObj [(''type'', JStr (types ! (d_type d mod 4))),
            (''text'', JStr (messages ! (d_msg d mod 10))),
            (''context'', JStr ''main''),
            (''timestamp'', JFloat (d_now d))],
      JObj [(''type'', JStr ''graph_update''),
            (''node_id'', JInt (d_node d)),
            (''activation'', JFloat (d_act d))]]
     @ (if d_gate d < 0.3
        then [JObj [(''type'', JStr ''metric''),
                    (''cpu'', JFloat (30 + d_cpu d * 40)),
                    (''tick_rate'', JFloat (15 + d_tick d * 10)),
                    (''active_nodes'', JInt (d_active d)),
                    (''total_edges'', JInt (d_edges d)),
                    (''mean_error'', JFloat (d_err d * 0.1)),
                    (''status'', JStr ([''ACTIVE'', ''LEARNING''] ! (d_status d mod 2)))]]
        else [])"

text \<open>\<^verbatim>\<open>_run_demo_mode\<close>: each element of the script is the value of \<^verbatim>\<open>self.running\<close>
  read by the loop test and the draws of the round.\<close>

fun run_demo_mode :: "(bool \<times> demo_draws) list \<Rightarrow> action list \<times> bool" where
  "run_demo_mode [] = ([], False)"
| "run_demo_mode ((running, d) # rest) =
     (if \<not> running then ([], True)
      else (case run_demo_mode rest of
              (acts, fin) \<Rightarrow> (Sleep (0.4 + d_sleep d * 0.4) # map Put (demo_events d) @ acts, fin)))"

record worker_env =
  connect_ok :: bool
  recv_script :: "(bool \<times> recv_result) list"
  demo_script :: "(bool \<times> demo_draws) list"

text \<open>\<^verbatim>\<open>connect_to_socket\<close>: one connection attempt; the receive loop when it succeeds,
  the synthetic generator when it raises.\<close>

definition connect_to_socket :: "(string \<Rightarrow> loads_result) \<Rightarrow> worker_env \<Rightarrow> action list \<times> bool" where
  "connect_to_socket loads env =
     (if connect_ok env
      then (case recv_loop loads (recv_script env) of (acts, fin) \<Rightarrow> (Connect # acts, fin))
      else (case run_demo_mode (demo_script env) of (acts, fin) \<Rightarrow> (Connect # EnterDemo # acts, fin)))"

text \<open>The events the worker has put on the queue, oldest first.\<close>

fun puts :: "action list \<Rightarrow> json list" where
  "puts [] = []"
| "puts (Put e # acts) = e # puts acts"
| "puts (_ # acts) = puts acts"

section \<open>The main loop\<close>

text \<open>
  What one round of the loop of \<^verbatim>\<open>run\<close> comes to: the frame is rendered and the loop goes
  on, a \<^verbatim>\<open>KeyboardInterrupt\<close> arrives, or another exception leaves the body. The script
  of the rounds is a parameter; a script that ends leaves the program inside the loop.
\<close>

datatype tick = Frame | Interrupt | Raises py_error

datatype loop_end = Interrupted | Raised py_error

fun main_loop :: "tick list \<Rightarrow> nat \<Rightarrow> (out_line list \<times> nat \<times> loop_end) option" where
  "main_loop [] frame_count = None"
| "main_loop (Frame # ts) frame_count =
     (case main_loop ts (Suc frame_count) of
        None \<Rightarrow> None
      | Some (out, n, e) \<Rightarrow>
          Some ((if Suc frame_count mod 30 = 0 then [FpsReport] else []) @ out, n, e))"
| "main_loop (Interrupt # ts) frame_count = Some ([], frame_count, Interrupted)"
| "main_loop (Raises e # ts) frame_count = Some ([], frame_count, Raised e)"

text \<open>What a finished \<^verbatim>\<open>run\<close> leaves: the lines printed, the number of frames rendered,
  whether the worker thread was started, and the exception that leaves \<^verbatim>\<open>run\<close>, if any.\<close>

record run_result =
  printed :: "out_line list"
  frames :: nat
  worker_started :: bool
  raised :: "py_error option"

text \<open>
  \<^verbatim>\<open>run\<close>. When \<^verbatim>\<open>open\<close> answers \<^verbatim>\<open>False\<close> it prints a line and returns. Otherwise
  it starts the worker and loops; \<^verbatim>\<open>KeyboardInterrupt\<close> is caught and reported, the
  \<^verbatim>\<open>finally\<close> clause closes the display, and an exception of \<^verbatim>\<open>close\<close> replaces the
  pending one.
\<close>

definition run :: "fb_device \<Rightarrow> tick list \<Rightarrow> FramebufferDisplay \<times> int set \<Rightarrow> run_result option" where
  "run dev ticks st =
     (case open_fb dev st of
        (ok, out, fb, fds) \<Rightarrow>
          if \<not> ok
          then Some \<lparr>printed = out @ [RunOpenFailed], frames = 0, worker_started = False,
                     raised = None\<rparr>
          else
            (case info fb of
               None \<Rightarrow> Some \<lparr>printed = out @ [Starting], frames = 0, worker_started = False,
                             raised = Some AttributeError\<rparr>
             | Some i \<Rightarrow>
                (case main_loop ticks 0 of
                   None \<Rightarrow> None
                 | Some (out', n, e) \<Rightarrow>
                    (case close (fb, fds) of
                       (ce, fb', fds') \<Rightarrow>
                         Some \<lparr>printed = out @ [Starting, Resolution (width i) (height i), PressCtrlC]
                                          @ out' @ (if e = Interrupted then [ShuttingDown] else []),
                               frames = n, worker_started = True,
                               raised = (case ce of
                                           Some c \<Rightarrow> Some c
                                         | None \<Rightarrow> (case e of Interrupted \<Rightarrow> None
                                                              | Raised x \<Rightarrow> Some x))\<rparr>))))"

text \<open>
  \<^verbatim>\<open>main\<close> prints the banner, builds the visualizer (no descriptor of the display open
  yet) and calls \<^verbatim>\<open>run\<close>. The exit status of the interpreter is \<open>0\<close> when \<^verbatim>\<open>main\<close>
  returns and \<open>1\<close> when an exception leaves it.
\<close>

definition main :: "fb_device \<Rightarrow> tick list \<Rightarrow> int set \<Rightarrow> run_result option" where
  "main dev ticks fds =
     (case run dev ticks (new_display, fds) of
        None \<Rightarrow> None
      | Some r \<Rightarrow> Some (r\<lparr>printed := Banner # printed r\<rparr>))"

definition exit_status :: "run_result \<Rightarrow> nat" where
  "exit_status r = (case raised r of None \<Rightarrow> 0 | Some e \<Rightarrow> 1)"

section \<open>Concrete inputs\<close>

text \<open>A node at the origin of the \<open>x\<close> and \<open>y\<close> axes with world depth \<open>zc\<close>, full
  activation, no brightness yet and pulse timer \<open>pt\<close>; a scene that holds one node; a
  scene with the two poles of the unit sphere, the one at \<open>z = -1\<close> at full brightness
  and the one at \<open>z = 1\<close> at half brightness, camera angle \<open>0\<close>.\<close>

definition example_node :: "real \<Rightarrow> real \<Rightarrow> GraphNode" where
  "example_node zc pt = \<lparr>node_id = 0, node_x = 0, node_y = 0, node_z = zc,
       activation = 1, brightness = 0, pulse_timer = pt\<rparr>"

definition one_node_scene :: "GraphNode \<Rightarrow> scene" where
  "one_node_scene n = \<lparr>entries = [], nodes = [(node_id n, n)],
           metrics = SystemMetrics_default, event_queue = [], camera_theta = 0\<rparr>"

definition two_node_scene :: scene where
  "two_node_scene = \<lparr>entries = [],
      nodes = [(0, \<lparr>node_id = 0, node_x = 0, node_y = 0, node_z = -1,
                    activation = 1, brightness = 1, pulse_timer = 0\<rparr>),
               (1, \<lparr>node_id = 1, node_x = 0, node_y = 0, node_z = 1,
                    activation = 1/2, brightness = 1/2, pulse_timer = 0\<rparr>)],
      metrics = SystemMetrics_default, event_queue = [], camera_theta = 0\<rparr>"

text \<open>A metric event that also carries \<^verbatim>\<open>gpu\<close> and \<^verbatim>\<open>ram\<close> fields.\<close>

definition example_metric_event :: json where
  "example_metric_event =
     JObj [(''type'', JStr ''metric''), (''cpu'', JFloat (221/4)), (''gpu'', JFloat 80),
           (''ram'', JFloat 70), (''tick_rate'', JInt 20), (''active_nodes'', JInt 30),
           (''total_edges'', JInt 120), (''mean_error'', JFloat (1/64)),
           (''status'', JStr ''ACTIVE'')]"

text \<open>
  A device of one column and two rows, 32 bits per pixel, whose rows are 8 bytes apart (4
  bytes of padding after the pixel of each row), with 16 zero bytes of memory; a device
  that cannot be opened; the descriptors a process starts with; the display object and
  descriptors after a successful \<^verbatim>\<open>open\<close> of the first device.
\<close>

definition example_device :: fb_device where
  "example_device =
     \<lparr>dev_fd = Some 3,
      dev_vinfo = Some (\<lambda>i. if i = 0 then 1 else if i = 1 then 2 else if i = 6 then 32 else 0),
      dev_finfo = Some (\<lambda>i. if i = 7 then 8 else 0),
      dev_mem = Some ([0, 0, 0, 0, 0, 0, 0, 0, 0, 0, 0, 0, 0, 0, 0, 0])\<rparr>"

definition absent_device :: fb_device where
  "absent_device = \<lparr>dev_fd = None, dev_vinfo = None, dev_finfo = None, dev_mem = None\<rparr>"

definition std_fds :: "int set" where
  "std_fds = {0, 1, 2}"

definition example_display :: "FramebufferDisplay \<times> int set" where
  "example_display = snd (snd (open_fb example_device (new_display, std_fds)))"

text \<open>
  The draws of one round of the synthetic generator; a worker environment in which the
  connection attempt fails; one in which it succeeds and the fourth read returns no
  bytes; and a stand-in for \<^verbatim>\<open>json.loads\<close> that decodes a line to the string it holds,
  except that \<^verbatim>\<open>?\<close> does not decode and \<^verbatim>\<open>!\<close> raises another exception.
\<close>

definition example_draws :: demo_draws where
  "example_draws = \<lparr>d_sleep = 1/2, d_type = 0, d_msg = 9, d_now = 1000, d_node = 7,
      d_act = 1/2, d_gate = 1/2, d_cpu = 0, d_tick = 0, d_active = 20, d_edges = 100,
      d_err = 0, d_status = 0\<rparr>"

definition no_feed_env :: worker_env where
  "no_feed_env = \<lparr>connect_ok = False, recv_script = [(True, Recv ''{}'')],
                   demo_script = [(True, example_draws), (False, example_draws)]\<rparr>"

definition eof_env :: worker_env where
  "eof_env = \<lparr>connect_ok = True,
               recv_script = [(True, RecvRaises), (True, Recv ''x''),
                              (True, Recv [CHR ''?'', CHR 0x0A, CHR ''!'', CHR 0x0A, CHR ''z'']),
                              (True, Recv ''''), (True, Recv ''y'')],
               demo_script = [(True, example_draws)]\<rparr>"

definition example_loads :: "string \<Rightarrow> loads_result" where
  "example_loads line =
     (if line = ''?'' then JSONDecodeError else if line = ''!'' then LoadsRaises
      else Decoded (JStr line))"

section \<open>The per-tick update: brightness and pulse timer\<close>
















section \<open>Float values in range\<close>

lemma float_max_large: "10 ^ 9 \<le> float_max"
  by (simp add: float_max_def)

lemma fl_small: "\<bar>r\<bar> \<le> 10 ^ 9 \<Longrightarrow> fl r = Fin r"
  using float_max_large by (simp add: fl_def abs_le_iff)

lemma int_to_float_small:
  "\<bar>real_of_int k\<bar> \<le> 10 ^ 9 \<Longrightarrow> int_to_float k = Inr (Fin (of_int k))"
  using float_max_large by (simp add: int_to_float_def)

lemma int_truediv_small:
  "\<bar>real_of_int k / of_int d\<bar> \<le> 10 ^ 9 \<Longrightarrow> int_truediv k d = Inr (Fin (of_int k / of_int d))"
  using float_max_large by (simp add: int_truediv_def)

section \<open>The draw order\<close>

lemma draw_order_by_world_z:
  "mset (draw_order s) = mset (nodes_values s)
   \<and> sorted (map node_z (draw_order s))
   \<and> filter (\<lambda>n. node_z n = k) (draw_order s) = filter (\<lambda>n. node_z n = k) (nodes_values s)"
  by (simp add: draw_order_def nodes_values_def sort_key_stable)

lemma draw_order_front_to_back_at_angle_zero:
  assumes "camera_theta s = 0"
  shows "sorted (map (view_depth s) (draw_order s))"
proof -
  have "map (view_depth s) (draw_order s) = map (\<lambda>z. 3 + z) (map node_z (draw_order s))"
    using assms by (simp add: view_depth_def z_rot_def distance_def)
  moreover have "sorted (map node_z (draw_order s))"
    by (simp add: draw_order_def)
  ultimately show ?thesis
    by (simp add: sorted_map monotoneI sorted_wrt_map del: map_map) 
qed

text \<open>
  Claim C1 at the camera angle \<open>0\<close> with the two poles of the unit sphere as nodes. The
  node at \<open>z = -1\<close> is visited first and the node at \<open>z = 1\<close> second; their depths in
  view space are \<open>2\<close> and \<open>4\<close> and their perspective scales \<open>3/2\<close> and \<open>3/4\<close>, so the
  node drawn later is the farther one. Both project to the screen position
  \<open>(400, 300)\<close> of an \<open>800\<close> by \<open>600\<close> panel, and the circle of the farther node
  (radius \<open>2\<close>, colour \<open>(0, 127, 63)\<close>) is drawn after, and so over, that of the nearer
  node (radius \<open>4\<close>, colour \<open>(0, 255, 127)\<close>).
\<close>

theorem draw_order_not_back_to_front:
  "draw_order two_node_scene = map snd (nodes two_node_scene)
   \<and> map (view_depth two_node_scene) (draw_order two_node_scene) = [2, 4]
   \<and> map (\<lambda>n. project_node two_node_scene n 800 600) (draw_order two_node_scene)
       = [Inr (400, 300, Fin (3/2)), Inr (400, 300, Fin (3/4))]
   \<and> render_graph_nodes two_node_scene 0 0 800 600
       = Inr [\<lparr>for_node = 0, cx = 400, cy = 300, radius = 4, color = (0, 255, 127)\<rparr>,
              \<lparr>for_node = 1, cx = 400, cy = 300, radius = 2, color = (0, 127, 63)\<rparr>]"
  by (simp add: render_graph_nodes_def draw_order_def nodes_values_def two_node_scene_def
      view_depth_def z_rot_def project_node_def distance_def fdiv_def fsub_def screen_coord_def
      int_truediv_small int_to_float_small circle_of_def fl_small Let_def)

section \<open>Projection\<close>

lemma project_unit_x:
  assumes "camera_theta s = 0" "node_x n = 1" "node_y n = 0" "node_z n = 0"
  shows "project_node s n 800 600 = Inr (600, 300, Fin 1)"
  using assms
  by (simp add: project_node_def distance_def fsub_def fdiv_def screen_coord_def
      int_truediv_small int_to_float_small fl_small Let_def)

lemma project_on_plane:
  assumes "camera_theta s = 0" "node_z n = - distance"
  shows "project_node s n w h = Inl ZeroDivisionError"
  using assms
  by (simp add: project_node_def distance_def fdiv_def fl_small Let_def)

lemma draw_nodes_on_plane:
  assumes "camera_theta s = 0" "node_z n = - distance"
  shows "draw_nodes s x y w h (n # rest) = Inl ZeroDivisionError"
  using assms by (simp add: project_on_plane)

lemma node_behind_camera_skipped:
  "render_graph_nodes (one_node_scene (example_node (-4) 0)) 0 0 800 600 = Inr []"
  by (simp add: render_graph_nodes_def draw_order_def nodes_values_def one_node_scene_def
      example_node_def project_node_def distance_def fdiv_def fsub_def screen_coord_def
      int_truediv_small int_to_float_small fl_small Let_def)

text \<open>
  Claim C6, as stated, fails in its second half. With the camera angle \<open>0\<close> a node at
  \<open>z = -3\<close> makes the divisor of the perspective scale zero: the node loop of
  \<^verbatim>\<open>render_graph\<close> raises \<^verbatim>\<open>ZeroDivisionError\<close> instead of skipping the node.
\<close>

theorem node_on_camera_plane_raises:
  "render_graph_nodes (one_node_scene (example_node (-3) 0)) 0 0 800 600 = Inl ZeroDivisionError"
  by (simp add: render_graph_nodes_def draw_order_def nodes_values_def one_node_scene_def
      example_node_def project_node_def distance_def fdiv_def fl_small Let_def)

text \<open>
  Claim C6, amended. With the camera angle \<open>0\<close>, the distance \<open>3\<close> and a panel of
  \<open>800\<close> by \<open>600\<close>, a node at \<open>(1, 0, 0)\<close> projects to \<open>(600, 300)\<close>. For a node at
  \<open>z = -3\<close> the division by \<^verbatim>\<open>distance + z_rot\<close> raises \<^verbatim>\<open>ZeroDivisionError\<close>:
  \<^verbatim>\<open>project_node\<close> raises it for any panel size, and the node loop of \<^verbatim>\<open>render_graph\<close>
  stops with it at that node, whatever nodes follow.
\<close>

theorem projection_at_angle_zero:
  assumes "camera_theta s = 0" and "node_z n = - distance"
  shows "project_node s \<lparr>node_id = k, node_x = 1, node_y = 0, node_z = 0,
                          activation = a, brightness = b, pulse_timer = p\<rparr> 800 600
           = Inr (600, 300, Fin 1)
     \<and> project_node s n w h = Inl ZeroDivisionError
     \<and> draw_nodes s x y w h (n # rest) = Inl ZeroDivisionError"
  using project_unit_x[OF assms(1)] project_on_plane[OF assms] draw_nodes_on_plane[OF assms]
  by simp

theorem projection_at_angle_zero_witness:
  "camera_theta (one_node_scene (example_node (-3) 0)) = 0
   \<and> node_z (example_node (-3) 0) = - distance
   \<and> project_node (one_node_scene (example_node (-3) 0))
        \<lparr>node_id = 1, node_x = 1, node_y = 0, node_z = 0,
         activation = 0, brightness = 0, pulse_timer = 0\<rparr> 800 600 = Inr (600, 300, Fin 1)
   \<and> project_node (one_node_scene (example_node (-3) 0)) (example_node (-3) 0) 800 600
        = Inl ZeroDivisionError"
proof -
  have h: "camera_theta (one_node_scene (example_node (-3) 0)) = 0"
    "node_z (example_node (-3) 0) = - distance"
    by (simp_all add: one_node_scene_def example_node_def distance_def)
  from projection_at_angle_zero[OF h, of 1 0 0 0 800 600] h show ?thesis
    by simp
qed

section \<open>Metric events\<close>

lemma metric_not_log: "JStr ''metric'' \<notin> set log_types" "JStr ''metric'' \<noteq> JStr ''graph_update''"
  by (simp_all add: log_types_def)

text \<open>
  Claim C10. Processing an event whose \<^verbatim>\<open>type\<close> is \<^verbatim>\<open>metric\<close> succeeds and replaces
  the whole metrics snapshot: the six fields \<^verbatim>\<open>cpu\<close>, \<^verbatim>\<open>tick_rate\<close>, \<^verbatim>\<open>active_nodes\<close>,
  \<^verbatim>\<open>total_edges\<close>, \<^verbatim>\<open>mean_error\<close>, \<^verbatim>\<open>status\<close> of the event (or their defaults) are
  stored, \<^verbatim>\<open>gpu_usage\<close> and \<^verbatim>\<open>ram_usage\<close> are \<open>0\<close>, and nothing of the previous snapshot
  or of the other fields of the event remains; the rest of the scene is unchanged.
\<close>

theorem metric_event_replaces_snapshot:
  assumes "py_get event ''type'' (JStr '''') = Inr (JStr ''metric'')"
  shows "\<exists>cpu tr an te me st.
           py_get event ''cpu'' (JInt 0) = Inr cpu
         \<and> py_get event ''tick_rate'' (JInt 0) = Inr tr
         \<and> py_get event ''active_nodes'' (JInt 0) = Inr an
         \<and> py_get event ''total_edges'' (JInt 0) = Inr te
         \<and> py_get event ''mean_error'' (JInt 0) = Inr me
         \<and> py_get event ''status'' (JStr ''IDLE'') = Inr st
         \<and> process_event now s event =
               Inr (s\<lparr>metrics :=
                      \<lparr>cpu_usage = cpu, gpu_usage = JFloat 0, ram_usage = JFloat 0,
                       tick_rate = tr, active_nodes = an, total_edges = te,
                       mean_error = me, status = st\<rparr>\<rparr>)"
proof (cases event)
  case (JObj kvs)
  have t: "py_get (JObj kvs) ''type'' (JStr []) = Inr (JStr ''metric'')"
    using assms JObj by simp
  show ?thesis
    unfolding JObj process_event_def t
    by (simp add: metric_not_log SystemMetrics_default_def)
qed (use assms in simp_all)

theorem metric_event_witness:
  "py_get example_metric_event ''type'' (JStr '''') = Inr (JStr ''metric'')
   \<and> (\<exists>s'. process_event 0 init_scene example_metric_event = Inr s'
        \<and> gpu_usage (metrics s') = JFloat 0 \<and> ram_usage (metrics s') = JFloat 0
        \<and> cpu_usage (metrics s') = JFloat (221/4) \<and> status (metrics s') = JStr ''ACTIVE'')"
proof -
  have h: "py_get example_metric_event ''type'' (JStr '''') = Inr (JStr ''metric'')"
    by (simp add: example_metric_event_def)
  have f: "py_get example_metric_event ''cpu'' (JInt 0) = Inr (JFloat (221/4))"
    "py_get example_metric_event ''status'' (JStr ''IDLE'') = Inr (JStr ''ACTIVE'')"
    by (simp_all add: example_metric_event_def)
  from metric_event_replaces_snapshot[OF h, of 0 init_scene] h f show ?thesis
    by auto
qed

section \<open>Opening, closing and clearing the display\<close>

lemma open_fb_example:
  "open_fb example_device (new_display, std_fds) =
     (True, [FbOpened 1 2 32],
      \<lparr>fb_fd = Some 3,
       fb_mem = Some \<lparr>mm_closed = False, mm_data = [0, 0, 0, 0, 0, 0, 0, 0, 0, 0, 0, 0, 0, 0, 0, 0], mm_pos = 0\<rparr>,
       info = Some \<lparr>width = 1, height = 2, bpp = 32, line_length = 8\<rparr>\<rparr>,
      {3, 0, 1, 2})"
  by (simp add: open_fb_def example_device_def new_display_def std_fds_def Let_def)

lemma open_fb_success:
  assumes "open_fb dev (fb0, fds0) = (True, out, fb, fds)"
  shows "\<exists>fd i m. fb_fd fb = Some fd \<and> fd \<in> fds \<and> info fb = Some i \<and> fb_mem fb = Some m
           \<and> \<not> mm_closed m \<and> mm_pos m = 0
           \<and> length (mm_data m) = line_length i * height i \<and> line_length i * height i \<noteq> 0"
  using assms
  by (auto simp: open_fb_def Let_def split: option.splits if_splits)

lemma close_after_open:
  assumes "open_fb dev (fb0, fds0) = (True, out, fb, fds)"
  shows "fst (close (fb, fds)) = None"
  using assms
  by (auto simp: open_fb_def close_def mmap_truth_def Let_def split: option.splits if_splits)

lemma open_fb_info:
  assumes "open_fb dev (fb0, fds0) = (True, out, fb, fds)"
  shows "\<exists>i. info fb = Some i"
  using assms
  by (auto simp: open_fb_def Let_def split: option.splits if_splits)

lemma open_fb_failed_output:
  assumes "open_fb dev st = (False, out, fb, fds)"
  shows "out = [FbOpenFailed]"
  using assms
  by (auto simp: open_fb_def Let_def split: option.splits if_splits prod.splits)

text \<open>
  Claim C4, as stated, fails: \<^verbatim>\<open>close\<close> does not reset the handles. On the opened example
  device the first \<^verbatim>\<open>close\<close> succeeds and the second raises \<^verbatim>\<open>ValueError\<close> (the truth
  test of the closed mapping).
\<close>

theorem second_close_raises:
  "fst (open_fb example_device (new_display, std_fds)) = True
   \<and> fst (close example_display) = None
   \<and> fst (close (snd (close example_display))) = Some ValueError"
  by (simp add: example_display_def open_fb_example close_def mmap_truth_def mmap_close_def)

text \<open>
  Claim C4, amended. After a successful \<^verbatim>\<open>open\<close> the display holds a descriptor that is
  open and a mapping that is not closed. The first \<^verbatim>\<open>close\<close> succeeds: it closes the
  mapping and releases the descriptor (except the descriptor \<open>0\<close>, which
  \<^verbatim>\<open>if self.fb_fd:\<close> takes for false and leaves open), and assigns no field. A second
  \<^verbatim>\<open>close\<close> right after it raises \<^verbatim>\<open>ValueError\<close> and leaves the object and the
  descriptors exactly as the first call left them.
\<close>

theorem close_twice_raises:
  assumes "open_fb dev (fb0, fds0) = (True, out, fb, fds)"
  shows "\<exists>fd m. fb_fd fb = Some fd \<and> fd \<in> fds \<and> fb_mem fb = Some m \<and> \<not> mm_closed m
           \<and> mm_closed (mmap_close m)
           \<and> close (fb, fds)
                = (None, fb\<lparr>fb_mem := Some (mmap_close m)\<rparr>,
                   if fd = 0 then fds else fds - {fd})
           \<and> close (fb\<lparr>fb_mem := Some (mmap_close m)\<rparr>, if fd = 0 then fds else fds - {fd})
                = (Some ValueError, fb\<lparr>fb_mem := Some (mmap_close m)\<rparr>,
                   if fd = 0 then fds else fds - {fd})"
proof -
  from open_fb_success[OF assms] obtain fd i m where
    h0: "fb_fd fb = Some fd" "fd \<in> fds" "fb_mem fb = Some m" "\<not> mm_closed m"
       "info fb = Some i"
       "length (mm_data m) = line_length i * height i" "line_length i * height i \<noteq> 0"
    by blast
  then have h: "fb_fd fb = Some fd" "fd \<in> fds" "fb_mem fb = Some m" "\<not> mm_closed m"
       "length (mm_data m) \<noteq> 0"
    by simp_all
  let ?fb' = "fb\<lparr>fb_mem := Some (mmap_close m)\<rparr>"
  let ?fds' = "if fd = 0 then fds else fds - {fd}"
  have c1: "close (fb, fds) = (None, ?fb', ?fds')"
    using h by (simp add: close_def mmap_truth_def)
  have c2: "close (?fb', ?fds') = (Some ValueError, ?fb', ?fds')"
    by (simp add: close_def mmap_truth_def mmap_close_def)
  have cl: "mm_closed (mmap_close m)"
    by (simp add: mmap_close_def)
  show ?thesis
    using c1 c2 cl h(1-4) by (intro exI[of _ fd] exI[of _ m]) simp
qed

theorem close_twice_raises_witness:
  "open_fb example_device (new_display, std_fds)
     = (True, [FbOpened 1 2 32], fst example_display, snd example_display)
   \<and> snd example_display = {3, 0, 1, 2}
   \<and> close example_display
        = (None,
           \<lparr>fb_fd = Some 3,
            fb_mem = Some \<lparr>mm_closed = True,
                           mm_data = [0, 0, 0, 0, 0, 0, 0, 0, 0, 0, 0, 0, 0, 0, 0, 0], mm_pos = 0\<rparr>,
            info = Some \<lparr>width = 1, height = 2, bpp = 32, line_length = 8\<rparr>\<rparr>,
           {0, 1, 2})
   \<and> fst (close (snd (close example_display))) = Some ValueError
   \<and> snd (close (snd (close example_display))) = snd (close example_display)"
proof -
  have h: "open_fb example_device (new_display, std_fds)
     = (True, [FbOpened 1 2 32], fst example_display, snd example_display)"
    by (simp add: example_display_def open_fb_example)
  have e: "example_display =
     (\<lparr>fb_fd = Some 3,
       fb_mem = Some \<lparr>mm_closed = False,
                      mm_data = [0, 0, 0, 0, 0, 0, 0, 0, 0, 0, 0, 0, 0, 0, 0, 0], mm_pos = 0\<rparr>,
       info = Some \<lparr>width = 1, height = 2, bpp = 32, line_length = 8\<rparr>\<rparr>,
      {3, 0, 1, 2})"
    by (simp add: example_display_def open_fb_example)
  from close_twice_raises[OF h] obtain fd m where
    r: "fb_fd (fst example_display) = Some fd" "fb_mem (fst example_display) = Some m"
      "close (fst example_display, snd example_display)
         = (None, (fst example_display)\<lparr>fb_mem := Some (mmap_close m)\<rparr>,
            if fd = 0 then snd example_display else snd example_display - {fd})"
      "close ((fst example_display)\<lparr>fb_mem := Some (mmap_close m)\<rparr>,
              if fd = 0 then snd example_display else snd example_display - {fd})
         = (Some ValueError, (fst example_display)\<lparr>fb_mem := Some (mmap_close m)\<rparr>,
            if fd = 0 then snd example_display else snd example_display - {fd})"
    by blast
  from r(1,2) have v: "fd = 3"
    "m = \<lparr>mm_closed = False, mm_data = [0, 0, 0, 0, 0, 0, 0, 0, 0, 0, 0, 0, 0, 0, 0, 0], mm_pos = 0\<rparr>"
    unfolding e by simp_all
  have s: "({3, 0, 1, 2} :: int set) - {3} = {0, 1, 2}"
    by auto
  from r(3,4) h show ?thesis
    unfolding v e by (simp add: mmap_close_def s)
qed

lemma mmap_write_ok:
  assumes "\<not> mm_closed m" "mm_pos m + length bs \<le> length (mm_data m)"
  shows "mmap_write m bs =
           (None, m\<lparr>mm_data := take (mm_pos m) (mm_data m) @ bs
                                   @ drop (mm_pos m + length bs) (mm_data m),
                    mm_pos := mm_pos m + length bs\<rparr>)"
  using assms by (simp add: mmap_write_def)

lemma write_pixels_ok:
  assumes "\<not> mm_closed m" "mm_pos m + n * length px \<le> length (mm_data m)"
  shows "write_pixels n px m =
           (None, m\<lparr>mm_data := take (mm_pos m) (mm_data m) @ concat (replicate n px)
                                   @ drop (mm_pos m + n * length px) (mm_data m),
                    mm_pos := mm_pos m + n * length px\<rparr>)"
  using assms
proof (induction n arbitrary: m)
  case 0
  then show ?case by simp
next
  case (Suc n)
  let ?p = "mm_pos m" and ?d = "mm_data m" and ?k = "length px"
  let ?m1 = "m\<lparr>mm_data := take ?p ?d @ px @ drop (?p + ?k) ?d, mm_pos := ?p + ?k\<rparr>"
  from Suc.prems have le: "?p + ?k \<le> length ?d" by simp
  have w: "mmap_write m px = (None, ?m1)"
    using Suc.prems(1) le by (rule mmap_write_ok)
  have len: "length (mm_data ?m1) = length ?d"
    using le by simp
  have c: "\<not> mm_closed ?m1" using Suc.prems(1) by simp
  have b: "mm_pos ?m1 + n * ?k \<le> length (mm_data ?m1)"
    using Suc.prems(2) le by (simp add: algebra_simps)
  have t: "take (?p + ?k) (take ?p ?d @ px @ drop (?p + ?k) ?d) = take ?p ?d @ px"
    using le by simp
  have d: "drop (?p + ?k + n * ?k) (take ?p ?d @ px @ drop (?p + ?k) ?d) = drop (?p + ?k + n * ?k) ?d"
    using le by (simp add: add.commute add.left_commute)
  show ?case
    using Suc.IH[OF c b] w t d by (simp add: algebra_simps)
qed

lemma drop_concat_replicate:
  "k \<le> n \<Longrightarrow> drop (k * length px) (concat (replicate n px)) = concat (replicate (n - k) px)"
proof (induction k arbitrary: n)
  case 0
  then show ?case by simp
next
  case (Suc k)
  then obtain n' where n: "n = Suc n'" by (cases n) auto
  with Suc show ?case by (simp add: add.commute)
qed

lemma pixel_in_concat:
  assumes "k < n"
  shows "take (length px) (drop (k * length px) (concat (replicate n px))) = px"
proof -
  from assms obtain j where j: "n - k = Suc j" by (cases "n - k") auto
  show ?thesis
    using assms by (simp add: drop_concat_replicate j)
qed

text \<open>
  On a geometry without padding (\<open>line_length = 4 * width\<close>) \<^verbatim>\<open>clear\<close> does fill the
  display: every pixel holds the packed colour afterwards.
\<close>

lemma clear_unpadded:
  assumes "info fb = Some i" and "fb_mem fb = Some m" and "\<not> mm_closed m"
    and "length (mm_data m) = line_length i * height i"
    and "line_length i = 4 * width i"
    and "pack_pixel c = Inr px"
    and "x < width i" and "y < height i"
  shows "\<exists>fb'. clear fb c = (None, fb') \<and> pixel_at fb' x y = px \<and> info fb' = info fb"
proof -
  have l4: "length px = 4"
    using assms(6) by (auto simp: pack_pixel_def split: prod.splits if_splits)
  have ne: "length (mm_data m) \<noteq> 0"
    using assms(4,5,7,8) by auto
  let ?m1 = "m\<lparr>mm_pos := 0\<rparr>"
  have sk: "mmap_seek m 0 = (None, ?m1)"
    using assms(3) by (simp add: mmap_seek_def)
  have b: "mm_pos ?m1 + (width i * height i) * length px \<le> length (mm_data ?m1)"
    using assms(4,5) l4 by (simp add: algebra_simps)
  have c: "\<not> mm_closed ?m1" using assms(3) by simp
  let ?m2 = "?m1\<lparr>mm_data := concat (replicate (width i * height i) px),
                  mm_pos := width i * height i * length px\<rparr>"
  have dr: "drop (width i * height i * length px) (mm_data m) = []"
    using assms(4,5) l4 by (simp add: algebra_simps)
  have wp: "write_pixels (width i * height i) px ?m1 = (None, ?m2)"
    using write_pixels_ok[OF c b] dr by simp
  have cl: "clear fb c = (None, fb\<lparr>fb_mem := Some ?m2\<rparr>)"
    using assms(1,2,3,6) ne sk wp by (simp add: clear_def mmap_truth_def)
  have idx: "y * width i + x < width i * height i"
  proof -
    have "y * width i + x < y * width i + width i" using assms(7) by simp
    also have "\<dots> = Suc y * width i" by simp
    also have "\<dots> \<le> height i * width i" using assms(8) by (intro mult_le_mono1) simp
    finally show ?thesis by (simp add: mult.commute)
  qed
  have off: "y * line_length i + x * 4 = (y * width i + x) * length px"
    using assms(5) l4 by (simp add: algebra_simps)
  have "take 4 (drop (y * line_length i + x * 4) (concat (replicate (width i * height i) px))) = px"
    using pixel_in_concat[OF idx, of px] unfolding off l4 .
  then have "pixel_at (fb\<lparr>fb_mem := Some ?m2\<rparr>) x y = px"
    using assms(1) by (simp add: pixel_at_def)
  with cl show ?thesis by simp
qed

text \<open>
  Claim C5 on the example device (width \<open>1\<close>, height \<open>2\<close>, stride \<open>8 \<ge> 4 * 1\<close>, all bytes
  zero) and the colour \<open>(10, 10, 10)\<close>: \<^verbatim>\<open>clear\<close> returns without error, the pixel
  \<open>(0, 0)\<close> holds \<open>(10, 10, 10, 255)\<close>, and the pixel \<open>(0, 1)\<close>, at offset \<open>1 * 8 + 0 * 4\<close>,
  still holds \<open>(0, 0, 0, 0)\<close>: the writes are consecutive and ignore the stride.
\<close>

theorem clear_misses_padded_rows:
  "(case clear (fst example_display) (10, 10, 10) of
      (e, fb') \<Rightarrow> (e, pixel_at fb' 0 0, pixel_at fb' 0 1))
   = (None, [10, 10, 10, 255], [0, 0, 0, 0])"
  by (simp add: example_display_def open_fb_example clear_def mmap_truth_def pack_pixel_def
      mmap_seek_def mmap_write_def pixel_at_def numeral_2_eq_2 Let_def)

section \<open>The exit status\<close>

lemma main_loop_frames_interrupt:
  "\<exists>out. main_loop (replicate n Frame @ Interrupt # rest) k = Some (out, k + n, Interrupted)
         \<and> set out \<subseteq> {FpsReport}"
proof (induction n arbitrary: k)
  case 0
  then show ?case by simp
next
  case (Suc n)
  from Suc.IH[of "Suc k"] obtain out where
    "main_loop (replicate n Frame @ Interrupt # rest) (Suc k) = Some (out, Suc k + n, Interrupted)"
    "set out \<subseteq> {FpsReport}" by blast
  then show ?case by auto
qed

text \<open>
  Claim C3, as stated, fails: when the device cannot be opened, \<^verbatim>\<open>run\<close> prints its line
  and returns, \<^verbatim>\<open>main\<close> returns, and the exit status is \<open>0\<close>.
\<close>

theorem open_failure_exit_status_zero:
  "map_option (\<lambda>r. (printed r, frames r, exit_status r)) (main absent_device [Frame, Interrupt] std_fds)
     = Some ([Banner, FbOpenFailed, RunOpenFailed], 0, 0)"
  by (simp add: main_def run_def open_fb_def absent_device_def exit_status_def)

text \<open>
  Claim C3, amended. If \<^verbatim>\<open>open\<close> fails, the program prints the banner and the two
  diagnostics, renders no frame, does not start the worker, and ends with exit status
  \<open>0\<close>, whatever the script of the loop. If \<^verbatim>\<open>open\<close> succeeds and the keyboard interrupt
  arrives after \<open>n\<close> frames, the program reports the shutdown and ends with exit status
  \<open>0\<close>.
\<close>

theorem exit_status_of_main:
  "if fst (open_fb dev (new_display, fds))
   then (\<exists>r. main dev (replicate n Frame @ Interrupt # rest) fds = Some r
           \<and> exit_status r = 0 \<and> frames r = n \<and> worker_started r
           \<and> last (printed r) = ShuttingDown)
   else (\<exists>r. main dev ticks fds = Some r
           \<and> exit_status r = 0 \<and> frames r = 0 \<and> \<not> worker_started r
           \<and> printed r = [Banner, FbOpenFailed, RunOpenFailed])"
proof (cases "fst (open_fb dev (new_display, fds))")
  case True
  then obtain out fb fds1 where o: "open_fb dev (new_display, fds) = (True, out, fb, fds1)"
    by (cases "open_fb dev (new_display, fds)") auto
  from open_fb_info[OF o] obtain i where i: "info fb = Some i" by blast
  from main_loop_frames_interrupt[of n rest 0] obtain out' where
    l: "main_loop (replicate n Frame @ Interrupt # rest) 0 = Some (out', n, Interrupted)"
    by auto
  obtain fb' fds' where c: "close (fb, fds1) = (None, fb', fds')"
    using close_after_open[OF o] by (cases "close (fb, fds1)") auto
  show ?thesis
    using True by (simp add: main_def run_def o i l c exit_status_def)
next
  case False
  then obtain out fb fds1 where o: "open_fb dev (new_display, fds) = (False, out, fb, fds1)"
    by (cases "open_fb dev (new_display, fds)") auto
  show ?thesis
    using False open_fb_failed_output[OF o] by (simp add: main_def run_def o exit_status_def)
qed

theorem exit_status_of_main_witness:
  "\<not> fst (open_fb absent_device (new_display, std_fds))
   \<and> (\<exists>r. main absent_device [Frame] std_fds = Some r
           \<and> exit_status r = 0 \<and> frames r = 0 \<and> \<not> worker_started r
           \<and> printed r = [Banner, FbOpenFailed, RunOpenFailed])"
  using exit_status_of_main[of absent_device std_fds _ _ "[Frame]"]
  by (simp add: open_fb_def absent_device_def)

section \<open>The ingestion worker: fallback and end of stream\<close>

lemma run_demo_mode_actions:
  "run_demo_mode script = (acts, fin) \<Longrightarrow>
     Connect \<notin> set acts \<and> EnterDemo \<notin> set acts \<and> CloseSocket \<notin> set acts"
proof (induction script arbitrary: acts fin)
  case Nil
  then show ?case by simp
next
  case (Cons a script)
  obtain running d where a: "a = (running, d)" by (cases a)
  show ?case
  proof (cases running)
    case False
    with Cons.prems a show ?thesis by simp
  next
    case True
    obtain acts' fin' where r: "run_demo_mode script = (acts', fin')"
      by (cases "run_demo_mode script")
    from Cons.IH[OF r] Cons.prems a True r show ?thesis
      by auto
  qed
qed

lemma run_demo_mode_puts:
  "puts (fst (run_demo_mode script))
     = concat (map (demo_events \<circ> snd) (takeWhile fst script))"
proof (induction script)
  case Nil
  then show ?case by simp
next
  case (Cons a script)
  obtain running d where a: "a = (running, d)" by (cases a)
  have p: "puts (map Put es @ acts) = es @ puts acts" for es acts
    by (induction es) simp_all
  show ?case
    using Cons.IH a by (cases "run_demo_mode script") (simp add: p)
qed

text \<open>
  Claim C8. If the connection attempt fails, the worker's actions are the one attempt,
  one entry into the synthetic generator, and then the actions of the generator, among
  which there is no connection attempt and no second entry; every event put on the
  queue is a synthetic one.
\<close>

theorem connect_failure_single_fallback:
  assumes "\<not> connect_ok env"
  shows "\<exists>acts fin. connect_to_socket loads env = (Connect # EnterDemo # acts, fin)
           \<and> run_demo_mode (demo_script env) = (acts, fin)
           \<and> Connect \<notin> set acts \<and> EnterDemo \<notin> set acts
           \<and> count_list (fst (connect_to_socket loads env)) Connect = 1
           \<and> count_list (fst (connect_to_socket loads env)) EnterDemo = 1
           \<and> puts (fst (connect_to_socket loads env))
               = concat (map (demo_events \<circ> snd) (takeWhile fst (demo_script env)))"
proof -
  obtain acts fin where r: "run_demo_mode (demo_script env) = (acts, fin)"
    by (cases "run_demo_mode (demo_script env)")
  from run_demo_mode_actions[OF r] have n: "Connect \<notin> set acts" "EnterDemo \<notin> set acts"
    by simp_all
  have c: "connect_to_socket loads env = (Connect # EnterDemo # acts, fin)"
    using assms r by (simp add: connect_to_socket_def)
  have p: "puts acts = concat (map (demo_events \<circ> snd) (takeWhile fst (demo_script env)))"
    using run_demo_mode_puts[of "demo_script env"] r by simp
  show ?thesis
    using c r n p by (simp add: count_list_0_iff)
qed

theorem connect_failure_single_fallback_witness:
  "\<not> connect_ok no_feed_env
   \<and> count_list (fst (connect_to_socket example_loads no_feed_env)) Connect = 1
   \<and> count_list (fst (connect_to_socket example_loads no_feed_env)) EnterDemo = 1
   \<and> puts (fst (connect_to_socket example_loads no_feed_env)) = demo_events example_draws"
  using connect_failure_single_fallback[of no_feed_env example_loads]
  by (auto simp: no_feed_env_def)

lemma put_lines_actions:
  "Connect \<notin> set (fst (put_lines loads ls)) \<and> EnterDemo \<notin> set (fst (put_lines loads ls))"
proof (induction ls)
  case Nil
  show ?case by simp
next
  case (Cons l ls)
  show ?case
  proof (cases "l = []")
    case True
    with Cons show ?thesis by simp
  next
    case False
    obtain acts exc where p: "put_lines loads ls = (acts, exc)"
      by (cases "put_lines loads ls")
    with Cons False show ?thesis
      by (cases "loads l") simp_all
  qed
qed

lemma recv_loop_actions:
  "recv_loop loads script = (acts, fin) \<Longrightarrow> Connect \<notin> set acts \<and> EnterDemo \<notin> set acts"
proof (induction script arbitrary: acts fin)
  case Nil
  then show ?case by simp
next
  case (Cons a script)
  obtain running r where a: "a = (running, r)" by (cases a)
  obtain acts' fin' where r: "recv_loop loads script = (acts', fin')"
    by (cases "recv_loop loads script")
  note ih = Cons.IH[OF r]
  show ?case
  proof (cases running)
    case False
    with Cons.prems a show ?thesis by auto
  next
    case True
    show ?thesis
    proof (cases r)
      case RecvRaises
      with Cons.prems a True r ih show ?thesis by auto
    next
      case (Recv data)
      obtain lacts exc where p: "put_lines loads (split_nl (strip data)) = (lacts, exc)"
        by (cases "put_lines loads (split_nl (strip data))")
      from put_lines_actions[of loads "split_nl (strip data)"] p
      have "Connect \<notin> set lacts" "EnterDemo \<notin> set lacts" by simp_all
      with Cons.prems a True r ih Recv p show ?thesis
        by (cases "data = []") auto
    qed
  qed
qed

lemma recv_loop_until_eof:
  assumes "\<forall>p \<in> set pre. fst p \<and> snd p \<noteq> Recv []"
  shows "recv_loop loads (pre @ (True, Recv []) # rest)
           = (fst (recv_loop loads pre) @ [CloseSocket], True)"
  using assms
proof (induction pre)
  case Nil
  then show ?case by simp
next
  case (Cons a pre)
  obtain running r where a: "a = (running, r)" by (cases a)
  from Cons.prems a have run: "running" and ne: "r \<noteq> Recv []" by simp_all
  from Cons.prems have "\<forall>p \<in> set pre. fst p \<and> snd p \<noteq> Recv []" by simp
  note ih = Cons.IH[OF this]
  obtain acts fin where rl: "recv_loop loads pre = (acts, fin)"
    by (cases "recv_loop loads pre")
  show ?case
  proof (cases r)
    case RecvRaises
    with a run ih rl show ?thesis by simp
  next
    case (Recv data)
    obtain lacts exc where p: "put_lines loads (split_nl (strip data)) = (lacts, exc)"
      by (cases "put_lines loads (split_nl (strip data))")
    from Recv ne have "data \<noteq> []" by simp
    with a run ih rl Recv p show ?thesis by simp
  qed
qed

lemma puts_append: "puts (xs @ ys) = puts xs @ puts ys"
  by (induction xs rule: puts.induct) simp_all

text \<open>
  Claim C9. If the connection succeeds and, after any number of rounds that went on
  (the flag read as true, the read raising or returning data), a read returns no bytes,
  then the worker closes the socket and returns: its actions are the attempt, the
  actions of the earlier rounds and the close; it never enters the synthetic generator,
  makes no second attempt, and puts no event after those of the earlier rounds, whatever
  the rest of the script holds.
\<close>

theorem eof_closes_and_terminates:
  assumes "connect_ok env"
    and "recv_script env = pre @ (True, Recv []) # rest"
    and "\<forall>p \<in> set pre. fst p \<and> snd p \<noteq> Recv []"
  shows "connect_to_socket loads env = (Connect # fst (recv_loop loads pre) @ [CloseSocket], True)
     \<and> EnterDemo \<notin> set (fst (connect_to_socket loads env))
     \<and> count_list (fst (connect_to_socket loads env)) Connect = 1
     \<and> puts (fst (connect_to_socket loads env)) = puts (fst (recv_loop loads pre))"
proof -
  have c: "connect_to_socket loads env = (Connect # fst (recv_loop loads pre) @ [CloseSocket], True)"
    using assms(1) recv_loop_until_eof[OF assms(3), of loads rest]
    by (simp add: connect_to_socket_def assms(2))
  have n: "Connect \<notin> set (fst (recv_loop loads pre))" "EnterDemo \<notin> set (fst (recv_loop loads pre))"
    using recv_loop_actions[of loads pre] by (cases "recv_loop loads pre"; simp)+
  show ?thesis
    using n by (simp add: c puts_append count_list_0_iff)
qed

theorem eof_closes_and_terminates_witness:
  "connect_ok eof_env
   \<and> recv_script eof_env
        = [(True, RecvRaises), (True, Recv ''x''),
           (True, Recv [CHR ''?'', CHR 0x0A, CHR ''!'', CHR 0x0A, CHR ''z''])]
          @ (True, Recv []) # [(True, Recv ''y'')]
   \<and> connect_to_socket example_loads eof_env
        = ([Connect, Sleep 1, Put (JStr ''x''), Sleep 1, CloseSocket], True)"
proof -
  have h: "connect_ok eof_env"
    "recv_script eof_env
        = [(True, RecvRaises), (True, Recv ''x''),
           (True, Recv [CHR ''?'', CHR 0x0A, CHR ''!'', CHR 0x0A, CHR ''z''])]
          @ (True, Recv []) # [(True, Recv ''y'')]"
    "\<forall>p \<in> set [(True, RecvRaises), (True, Recv ''x''),
           (True, Recv [CHR ''?'', CHR 0x0A, CHR ''!'', CHR 0x0A, CHR ''z''])].
        fst p \<and> snd p \<noteq> Recv []"
    by (simp_all add: eof_env_def)
  from eof_closes_and_terminates[OF h, of example_loads] h(1,2) show ?thesis
    by (simp add: example_loads_def strip_def py_isspace_def)
qed

end
